theory Spec2Isabelle
  imports Main "HOL-Library.Log_Nat"
begin

section \<open>The scientific calculator of \<^verbatim>\<open>src/App.tsx\<close>\<close>

text \<open>
  The component \<^verbatim>\<open>App\<close> keeps the whole calculator in eight \<^verbatim>\<open>useState\<close> cells and
  changes them in event handlers. This theory embeds the handlers as functions from the
  state of one render to the state of the next, and proves the properties of the
  specification about them.

  Three things of the host language are made explicit here.
  \<^item> A JavaScript Number is an IEEE-754 binary64 value. A finite one is the rational it
    denotes; the negative zero, \<open>NaN\<close> and the two infinities are constructors of their
    own.
  \<^item> Strings are lists of bytes. Every string a handler can put on the display is ASCII;
    the two button names outside ASCII are written in UTF-8.
  \<^item> A handler is a closure over the values of one render. A setter does not change what
    the closure reads: it queues the new value, and of several calls of one setter in a
    handler the last one wins.
\<close>

subsection \<open>Numbers\<close>

datatype number = Fin rat | NegZero | NaN | PosInf | NegInf

text \<open>\<open>Fin 0\<close> is the positive zero and \<open>NegZero\<close> the negative one.\<close>

definition pow2 :: "int \<Rightarrow> rat" where
  "pow2 k = (if 0 \<le> k then 2 ^ nat k else 1 / 2 ^ nat (- k))"

definition ilog2 :: "rat \<Rightarrow> int" where
  \<comment> \<open>for \<open>0 < a\<close>: the integer \<open>e\<close> with \<open>2\<^sup>e \<le> a < 2\<^sup>e\<^sup>+\<^sup>1\<close>\<close>
  "ilog2 a = (if 1 \<le> a then int (floorlog 2 (nat \<lfloor>a\<rfloor>)) - 1
              else - int (floorlog 2 (nat (\<lceil>1 / a\<rceil> - 1))))"

definition round_half_even :: "rat \<Rightarrow> int" where
  "round_half_even x =
     (let f = \<lfloor>x\<rfloor>; r = x - of_int f
      in if r < 1 / 2 then f else if 1 / 2 < r then f + 1
         else if even f then f else f + 1)"

definition zero_of :: "bool \<Rightarrow> number" where
  \<comment> \<open>the zero of a sign bit\<close>
  "zero_of neg = (if neg then NegZero else Fin 0)"

definition inf_of :: "bool \<Rightarrow> number" where
  \<comment> \<open>the infinity of a sign bit\<close>
  "inf_of neg = (if neg then NegInf else PosInf)"

definition round64 :: "rat \<Rightarrow> number" where
  \<comment> \<open>round to nearest binary64, ties to even; 53 bits of precision, least exponent
      \<open>-1022\<close>, overflow to infinity, underflow to the zero of the same sign\<close>
  "round64 q =
     (if q = 0 then Fin 0
      else let a = \<bar>q\<bar>;
               e = max (ilog2 a) (- 1022);
               u = pow2 (e - 52);
               r = of_int (round_half_even (a / u)) * u
           in if pow2 1024 \<le> r then inf_of (q < 0)
              else if r = 0 then zero_of (q < 0)
              else Fin (if 0 < q then r else - r))"

definition is_zero :: "number \<Rightarrow> bool" where
  \<comment> \<open>\<^verbatim>\<open>x === 0\<close>: true of both zeros\<close>
  "is_zero x = (x = Fin 0 \<or> x = NegZero)"

definition negative :: "number \<Rightarrow> bool" where
  \<comment> \<open>the sign bit of a number that is not \<open>NaN\<close>\<close>
  "negative x = (case x of Fin q \<Rightarrow> q < 0 | NegZero \<Rightarrow> True | NegInf \<Rightarrow> True | _ \<Rightarrow> False)"

definition finite_value :: "number \<Rightarrow> rat option" where
  "finite_value x = (case x of Fin q \<Rightarrow> Some q | NegZero \<Rightarrow> Some 0 | _ \<Rightarrow> None)"

fun js_neg :: "number \<Rightarrow> number" where
  "js_neg (Fin q) = (if q = 0 then NegZero else Fin (- q))"
| "js_neg NegZero = Fin 0"
| "js_neg NaN = NaN"
| "js_neg PosInf = NegInf"
| "js_neg NegInf = PosInf"

definition js_add :: "number \<Rightarrow> number \<Rightarrow> number" where
  \<comment> \<open>a sum that is exactly zero is the positive zero, unless both terms are the negative
      one\<close>
  "js_add x y =
     (if x = NaN \<or> y = NaN then NaN
      else case (finite_value x, finite_value y) of
             (Some a, Some b) \<Rightarrow> (if x = NegZero \<and> y = NegZero then NegZero else round64 (a + b))
           | (Some a, None) \<Rightarrow> y
           | (None, Some b) \<Rightarrow> x
           | (None, None) \<Rightarrow> (if x = y then x else NaN))"

definition js_sub :: "number \<Rightarrow> number \<Rightarrow> number" where
  "js_sub x y = js_add x (js_neg y)"

definition js_mul :: "number \<Rightarrow> number \<Rightarrow> number" where
  "js_mul x y =
     (if x = NaN \<or> y = NaN then NaN
      else case (finite_value x, finite_value y) of
             (Some a, Some b) \<Rightarrow>
               (if a * b = 0 then zero_of (negative x \<noteq> negative y) else round64 (a * b))
           | _ \<Rightarrow> (if is_zero x \<or> is_zero y then NaN else inf_of (negative x \<noteq> negative y)))"

definition js_div :: "number \<Rightarrow> number \<Rightarrow> number" where
  "js_div x y =
     (if x = NaN \<or> y = NaN then NaN
      else case (finite_value x, finite_value y) of
             (Some a, Some b) \<Rightarrow>
               (if b = 0 then (if a = 0 then NaN else inf_of (negative x \<noteq> negative y))
                else if a = 0 then zero_of (negative x \<noteq> negative y)
                else round64 (a / b))
           | (Some a, None) \<Rightarrow> zero_of (negative x \<noteq> negative y)
           | (None, Some b) \<Rightarrow> inf_of (negative x \<noteq> negative y)
           | (None, None) \<Rightarrow> NaN)"

definition js_lt0 :: "number \<Rightarrow> bool" where
  \<comment> \<open>\<^verbatim>\<open>x < 0\<close>\<close>
  "js_lt0 x = (case x of Fin q \<Rightarrow> q < 0 | NegInf \<Rightarrow> True | _ \<Rightarrow> False)"

definition isInteger :: "number \<Rightarrow> bool" where
  \<comment> \<open>\<^verbatim>\<open>Number.isInteger(x)\<close>\<close>
  "isInteger x = (case x of Fin q \<Rightarrow> of_int \<lfloor>q\<rfloor> = q | NegZero \<Rightarrow> True | _ \<Rightarrow> False)"

definition truthy :: "number \<Rightarrow> bool" where
  \<comment> \<open>a number in a boolean position: false for the zeros and \<open>NaN\<close>\<close>
  "truthy x = (\<not> is_zero x \<and> x \<noteq> NaN)"

definition Math_PI :: number where
  "Math_PI = Fin (884279719003555 / 2 ^ 48)"

definition Math_E :: number where
  "Math_E = Fin (6121026514868073 / 2 ^ 51)"

text \<open>
  The functions of \<^verbatim>\<open>Math\<close> that the language leaves to the implementation, the digits
  \<^verbatim>\<open>String\<close> chooses for a number that is not a small integer, and the depth of the call
  stack are parameters of the model.
\<close>

record platform =
  Math_sin :: "number \<Rightarrow> number"
  Math_cos :: "number \<Rightarrow> number"
  Math_tan :: "number \<Rightarrow> number"
  Math_log10 :: "number \<Rightarrow> number"
  Math_log :: "number \<Rightarrow> number"
  Math_sqrt :: "number \<Rightarrow> number"
  Math_pow :: "number \<Rightarrow> number \<Rightarrow> number"
  shortest_digits :: "rat \<Rightarrow> string"
  spare_frames :: nat

definition stack_frames :: "platform \<Rightarrow> nat" where
  \<comment> \<open>the frames the engine has left for the calls a handler makes: 16, and what the
      platform has to spare. An event handler already runs many frames deep in the event
      dispatch of the library, and no engine stops within 16 frames of that.\<close>
  "stack_frames P = 16 + spare_frames P"

subsection \<open>Numbers and strings\<close>

fun nat_digits :: "nat \<Rightarrow> string" where
  "nat_digits n =
     (if n < 10 then [''0123456789'' ! n]
      else nat_digits (n div 10) @ [''0123456789'' ! (n mod 10)])"

declare nat_digits.simps [simp del]

definition String :: "platform \<Rightarrow> number \<Rightarrow> string" where
  \<comment> \<open>\<^verbatim>\<open>String(x)\<close>, and \<^verbatim>\<open>${x}\<close> in a template: an integer below \<open>2\<^sup>5\<^sup>3\<close> in absolute value
      is written out in decimal\<close>
  "String P x =
     (case x of
        NaN \<Rightarrow> ''NaN''
      | NegZero \<Rightarrow> ''0''
      | PosInf \<Rightarrow> ''Infinity''
      | NegInf \<Rightarrow> ''-Infinity''
      | Fin q \<Rightarrow>
          (if of_int \<lfloor>q\<rfloor> = q \<and> \<bar>q\<bar> < 2 ^ 53
           then (if q < 0 then ''-'' else []) @ nat_digits (nat \<lfloor>\<bar>q\<bar>\<rfloor>)
           else shortest_digits P q))"

definition is_digit :: "char \<Rightarrow> bool" where
  "is_digit c = (c \<in> set ''0123456789'')"

definition digit_value :: "char \<Rightarrow> nat" where
  "digit_value c = of_char c - 48"

definition decimal_value :: "string \<Rightarrow> nat" where
  "decimal_value ds = foldl (\<lambda>a c. 10 * a + digit_value c) 0 ds"

definition is_white_space :: "char \<Rightarrow> bool" where
  \<comment> \<open>the white space and line terminators of ASCII\<close>
  "is_white_space c = (c \<in> set [CHR 0x09, CHR 0x0A, CHR 0x0B, CHR 0x0C, CHR 0x0D, CHR 0x20])"

definition signed_integer :: "string \<Rightarrow> int option" where
  "signed_integer s =
     (let neg = (take 1 s = ''-'');
          t = (if take 1 s = ''-'' \<or> take 1 s = ''+'' then drop 1 s else s);
          ds = takeWhile is_digit t
      in if ds = [] then None
         else Some (if neg then - int (decimal_value ds) else int (decimal_value ds)))"

definition exponent_part :: "string \<Rightarrow> int" where
  \<comment> \<open>the exponent a literal continues with; \<open>0\<close> when no exponent part follows\<close>
  "exponent_part s =
     (if take 1 s = ''e'' \<or> take 1 s = ''E''
      then (case signed_integer (drop 1 s) of Some k \<Rightarrow> k | None \<Rightarrow> 0)
      else 0)"

definition pow10 :: "int \<Rightarrow> rat" where
  "pow10 k = (if 0 \<le> k then 10 ^ nat k else 1 / 10 ^ nat (- k))"

definition unsigned_literal :: "string \<Rightarrow> number option" where
  \<comment> \<open>the value of the longest prefix that is an unsigned decimal literal\<close>
  "unsigned_literal s =
     (if take 8 s = ''Infinity'' then Some PosInf
      else let ip = takeWhile is_digit s;
               r1 = dropWhile is_digit s;
               point = (take 1 r1 = ''.'');
               fp = (if point then takeWhile is_digit (drop 1 r1) else []);
               r2 = (if point then dropWhile is_digit (drop 1 r1) else r1)
           in if ip = [] \<and> fp = [] then None
              else Some (round64 (of_nat (decimal_value (ip @ fp)) / 10 ^ length fp
                                  * pow10 (exponent_part r2))))"

definition parseFloat :: "string \<Rightarrow> number" where
  "parseFloat s =
     (let t = dropWhile is_white_space s;
          neg = (take 1 t = ''-'');
          u = (if take 1 t = ''-'' \<or> take 1 t = ''+'' then drop 1 t else t)
      in case unsigned_literal u of
           None \<Rightarrow> NaN
         | Some v \<Rightarrow> (if neg then js_neg v else v))"

subsection \<open>The state of the component\<close>

record HistoryEntry =
  expression :: string
  result :: string

record calculator =
  display :: string
  previousValue :: "number option"
  operation :: "string option"
  waitingForNewValue :: bool
  memory :: number
  history :: "HistoryEntry list"
  showHistory :: bool
  isError :: bool

definition initial :: calculator where
  "initial = \<lparr>display = ''0'', previousValue = None, operation = None,
              waitingForNewValue = False, memory = Fin 0, history = [],
              showHistory = False, isError = False\<rparr>"

datatype js_error = Error string | RangeError string

subsection \<open>The handlers\<close>

text \<open>
  Each handler takes the state of the render it was created in and gives the state of the
  next render. What a handler reads (\<^verbatim>\<open>display\<close>, \<^verbatim>\<open>isError\<close>, ...) is read from the old
  state throughout, also after a setter has been called.
\<close>

definition handleNumber :: "string \<Rightarrow> calculator \<Rightarrow> calculator" where
  "handleNumber num s =
     (let s1 = (if isError s then s\<lparr>display := ''0'', isError := False\<rparr> else s)
      in if waitingForNewValue s
         then s1\<lparr>display := num, waitingForNewValue := False\<rparr>
         else s1\<lparr>display := (if display s = ''0'' then num else display s @ num)\<rparr>)"

definition handleDecimal :: "calculator \<Rightarrow> calculator" where
  "handleDecimal s =
     (if isError s then s\<lparr>display := ''0.'', isError := False\<rparr>
      else if waitingForNewValue s then s\<lparr>display := ''0.'', waitingForNewValue := False\<rparr>
      else if CHR ''.'' \<notin> set (display s) then s\<lparr>display := display s @ ''.''\<rparr>
      else s)"

definition calculate :: "platform \<Rightarrow> number \<Rightarrow> number \<Rightarrow> string \<Rightarrow> js_error + number" where
  "calculate P firstValue secondValue op =
     (if op = ''+'' then Inr (js_add firstValue secondValue)
      else if op = ''-'' then Inr (js_sub firstValue secondValue)
      else if op = ''*'' then Inr (js_mul firstValue secondValue)
      else if op = ''/'' then
        (if is_zero secondValue then Inl (Error ''Division by zero'')
         else Inr (js_div firstValue secondValue))
      else if op = ''^'' then Inr (Math_pow P firstValue secondValue)
      else Inr secondValue)"

definition push_history :: "HistoryEntry \<Rightarrow> HistoryEntry list \<Rightarrow> HistoryEntry list" where
  \<comment> \<open>\<^verbatim>\<open>[entry, ...prev.slice(0, 9)]\<close>\<close>
  "push_history entry prev = entry # take 9 prev"

definition pending :: "calculator \<Rightarrow> (number \<times> string) option" where
  \<comment> \<open>the operand and the operator under \<^verbatim>\<open>previousValue !== null && operation\<close>: a string
      in a boolean position is false when it is null or empty\<close>
  "pending s =
     (case previousValue s of
        None \<Rightarrow> None
      | Some pv \<Rightarrow>
          (case operation s of
             None \<Rightarrow> None
           | Some op \<Rightarrow> (if op = [] then None else Some (pv, op))))"

definition handleOperation :: "platform \<Rightarrow> string \<Rightarrow> calculator \<Rightarrow> calculator" where
  "handleOperation P nextOperation s =
     (let inputValue = parseFloat (display s)
      in if previousValue s = None
         then s\<lparr>previousValue := Some inputValue, waitingForNewValue := True,
                operation := Some nextOperation\<rparr>
         else case pending s of
                None \<Rightarrow> s\<lparr>waitingForNewValue := True, operation := Some nextOperation\<rparr>
              | Some (pv, op) \<Rightarrow>
                  (let currentValue = (if truthy pv then pv else Fin 0)
                   in case calculate P currentValue inputValue op of
                        Inr newValue \<Rightarrow>
                          s\<lparr>display := String P newValue,
                            previousValue := Some newValue,
                            history := push_history
                              \<lparr>expression = String P currentValue @ '' '' @ op @ '' ''
                                              @ String P inputValue,
                               result = String P newValue\<rparr> (history s),
                            waitingForNewValue := True,
                            operation := Some nextOperation\<rparr>
                      | Inl error \<Rightarrow>
                          s\<lparr>display := ''Error'', isError := True,
                            previousValue := None, operation := None\<rparr>))"

definition handleEquals :: "platform \<Rightarrow> calculator \<Rightarrow> calculator" where
  "handleEquals P s =
     (let inputValue = parseFloat (display s)
      in case pending s of
           None \<Rightarrow> s
         | Some (pv, op) \<Rightarrow>
             (case calculate P pv inputValue op of
                Inr newValue \<Rightarrow>
                  s\<lparr>display := String P newValue,
                    history := push_history
                      \<lparr>expression = String P pv @ '' '' @ op @ '' '' @ String P inputValue,
                       result = String P newValue\<rparr> (history s),
                    previousValue := None, operation := None,
                    waitingForNewValue := True\<rparr>
              | Inl error \<Rightarrow>
                  s\<lparr>display := ''Error'', isError := True,
                    previousValue := None, operation := None\<rparr>))"

fun factorial :: "nat \<Rightarrow> number \<Rightarrow> number option" where
  \<comment> \<open>\<^verbatim>\<open>factorial(n)\<close> with \<open>frames\<close> frames left on the call stack, one for each call;
      \<open>None\<close> when the stack runs out\<close>
  "factorial 0 n = None"
| "factorial (Suc frames) n =
     (if is_zero n \<or> n = Fin 1 then Some (Fin 1)
      else map_option (js_mul n) (factorial frames (js_sub n (Fin 1))))"

definition scientific :: "platform \<Rightarrow> string \<Rightarrow> number \<Rightarrow> (js_error + number) option" where
  \<comment> \<open>the \<^verbatim>\<open>switch\<close> of \<^verbatim>\<open>handleScientific\<close>: \<open>None\<close> for the \<^verbatim>\<open>default: return\<close>,
      \<open>Inl\<close> for a \<^verbatim>\<open>throw\<close>, \<open>Inr\<close> for the value assigned to \<^verbatim>\<open>result\<close>. A recursion of
      \<^verbatim>\<open>factorial\<close> that runs out of stack, because it is too deep or does not end, is
      reported by the engine as a \<^verbatim>\<open>RangeError\<close> thrown inside the \<^verbatim>\<open>try\<close>.\<close>
  "scientific P func inputValue =
     (if func = ''sin'' then Some (Inr (Math_sin P inputValue))
      else if func = ''cos'' then Some (Inr (Math_cos P inputValue))
      else if func = ''tan'' then Some (Inr (Math_tan P inputValue))
      else if func = ''log'' then Some (Inr (Math_log10 P inputValue))
      else if func = ''ln'' then Some (Inr (Math_log P inputValue))
      else if func = ''sqrt'' then
        (if js_lt0 inputValue then Some (Inl (Error ''Invalid input''))
         else Some (Inr (Math_sqrt P inputValue)))
      else if func = ''!'' then
        (if js_lt0 inputValue \<or> \<not> isInteger inputValue then Some (Inl (Error ''Invalid input''))
         else case factorial (stack_frames P) inputValue of
                Some r \<Rightarrow> Some (Inr r)
              | None \<Rightarrow> Some (Inl (RangeError ''Maximum call stack size exceeded'')))
      else if func = ''1/x'' then
        (if is_zero inputValue then Some (Inl (Error ''Division by zero''))
         else Some (Inr (js_div (Fin 1) inputValue)))
      else if func = [CHR ''x'', CHR 0xC2, CHR 0xB2] then Some (Inr (js_mul inputValue inputValue))
      else if func = [CHR 0xCF, CHR 0x80] then Some (Inr Math_PI)
      else if func = ''e'' then Some (Inr Math_E)
      else None)"

definition handleScientific :: "platform \<Rightarrow> string \<Rightarrow> calculator \<Rightarrow> calculator" where
  "handleScientific P func s =
     (let inputValue = parseFloat (display s)
      in case scientific P func inputValue of
           None \<Rightarrow> s
         | Some (Inr r) \<Rightarrow>
             s\<lparr>display := String P r,
               history := push_history
                 \<lparr>expression = func @ ''('' @ String P inputValue @ '')'',
                  result = String P r\<rparr> (history s),
               waitingForNewValue := True\<rparr>
         | Some (Inl error) \<Rightarrow> s\<lparr>display := ''Error'', isError := True\<rparr>)"

definition handleClear :: "calculator \<Rightarrow> calculator" where
  "handleClear s =
     s\<lparr>display := ''0'', previousValue := None, operation := None,
       waitingForNewValue := False, isError := False\<rparr>"

definition handleAllClear :: "calculator \<Rightarrow> calculator" where
  "handleAllClear s = (handleClear s)\<lparr>memory := Fin 0, history := []\<rparr>"

definition handleMemory :: "platform \<Rightarrow> string \<Rightarrow> calculator \<Rightarrow> calculator" where
  "handleMemory P func s =
     (let inputValue = parseFloat (display s)
      in if func = ''MC'' then s\<lparr>memory := Fin 0\<rparr>
         else if func = ''MR'' then s\<lparr>display := String P (memory s), waitingForNewValue := True\<rparr>
         else if func = ''MS'' then s\<lparr>memory := inputValue\<rparr>
         else if func = ''M+'' then s\<lparr>memory := js_add (memory s) inputValue\<rparr>
         else if func = ''M-'' then s\<lparr>memory := js_sub (memory s) inputValue\<rparr>
         else s)"

definition backspace :: "calculator \<Rightarrow> calculator" where
  \<comment> \<open>the button and the key of the same name: \<^verbatim>\<open>display.slice(0, -1)\<close>, or \<^verbatim>\<open>'0'\<close>\<close>
  "backspace s =
     (if 1 < length (display s) then s\<lparr>display := butlast (display s)\<rparr>
      else s\<lparr>display := ''0''\<rparr>)"

definition recallHistoryEntry :: "HistoryEntry \<Rightarrow> calculator \<Rightarrow> calculator" where
  \<comment> \<open>the click on an entry of the history panel\<close>
  "recallHistoryEntry entry s = s\<lparr>display := result entry, waitingForNewValue := True\<rparr>"

fun string_le :: "string \<Rightarrow> string \<Rightarrow> bool" where
  \<comment> \<open>\<^verbatim>\<open><=\<close> on strings: by code units, a prefix first\<close>
  "string_le [] ys = True"
| "string_le (x # xs) [] = False"
| "string_le (x # xs) (y # ys) =
     ((of_char x :: nat) < of_char y \<or> (x = y \<and> string_le xs ys))"

definition handleKeyPress :: "platform \<Rightarrow> string \<Rightarrow> calculator \<Rightarrow> calculator" where
  "handleKeyPress P key s =
     (if string_le ''0'' key \<and> string_le key ''9'' then handleNumber key s
      else if key = ''.'' then handleDecimal s
      else if key \<in> set [''+'', ''-'', ''*'', ''/''] then handleOperation P key s
      else if key = ''Enter'' \<or> key = ''='' then handleEquals P s
      else if key = ''Escape'' then handleClear s
      else if key = ''Backspace'' then backspace s
      else s)"

subsection \<open>Events\<close>

text \<open>
  One event is one click or one key. The history panel, with its entries and its button
  that empties the log, is on the page only while \<^verbatim>\<open>showHistory\<close> holds.
\<close>

datatype event =
    NumberButton string
  | DecimalButton
  | OperationButton string
  | EqualsButton
  | ScientificButton string
  | ClearButton
  | AllClearButton
  | MemoryButton string
  | BackspaceButton
  | HistoryToggle
  | HistoryClear
  | HistoryEntryClick nat
  | KeyDown string

fun step :: "platform \<Rightarrow> calculator \<Rightarrow> event \<Rightarrow> calculator" where
  "step P s (NumberButton num) = handleNumber num s"
| "step P s DecimalButton = handleDecimal s"
| "step P s (OperationButton op) = handleOperation P op s"
| "step P s EqualsButton = handleEquals P s"
| "step P s (ScientificButton func) = handleScientific P func s"
| "step P s ClearButton = handleClear s"
| "step P s AllClearButton = handleAllClear s"
| "step P s (MemoryButton func) = handleMemory P func s"
| "step P s BackspaceButton = backspace s"
| "step P s HistoryToggle = s\<lparr>showHistory := \<not> showHistory s\<rparr>"
| "step P s HistoryClear = (if showHistory s then s\<lparr>history := []\<rparr> else s)"
| "step P s (HistoryEntryClick i) =
     (if showHistory s \<and> i < length (history s) then recallHistoryEntry (history s ! i) s
      else s)"
| "step P s (KeyDown key) = handleKeyPress P key s"

definition run :: "platform \<Rightarrow> event list \<Rightarrow> calculator" where
  \<comment> \<open>the state after a sequence of events, from the first render\<close>
  "run P evs = foldl (step P) initial evs"

subsection \<open>Auxiliary notions\<close>

text \<open>
  What one event may do to the log, and the shape of the pending pair that every event
  keeps.
\<close>

definition history_step :: "HistoryEntry list \<Rightarrow> HistoryEntry list \<Rightarrow> bool" where
  "history_step h h' = (h' = h \<or> h' = [] \<or> (\<exists>e. h' = push_history e h))"

definition coherent :: "calculator \<Rightarrow> bool" where
  "coherent s = ((previousValue s = None) = (operation s = None))"

text \<open>
  A platform to state closed instances of the theorems. No instance below depends on
  what its functions return, and its stack is the least one.
\<close>

definition plain_platform :: platform where
  "plain_platform =
     \<lparr>Math_sin = (\<lambda>x. NaN), Math_cos = (\<lambda>x. NaN), Math_tan = (\<lambda>x. NaN),
      Math_log10 = (\<lambda>x. NaN), Math_log = (\<lambda>x. NaN), Math_sqrt = (\<lambda>x. NaN),
      Math_pow = (\<lambda>x y. NaN), shortest_digits = (\<lambda>q. []), spare_frames = 0\<rparr>"

definition constants_1_to_11 :: "event list" where
  \<comment> \<open>eleven entries, \<^verbatim>\<open>1\<close> to \<^verbatim>\<open>11\<close>, each followed by the constant \<^verbatim>\<open>e\<close>\<close>
  "constants_1_to_11 =
     [NumberButton ''1'', ScientificButton ''e'', NumberButton ''2'', ScientificButton ''e'',
      NumberButton ''3'', ScientificButton ''e'', NumberButton ''4'', ScientificButton ''e'',
      NumberButton ''5'', ScientificButton ''e'', NumberButton ''6'', ScientificButton ''e'',
      NumberButton ''7'', ScientificButton ''e'', NumberButton ''8'', ScientificButton ''e'',
      NumberButton ''9'', ScientificButton ''e'',
      NumberButton ''1'', NumberButton ''0'', ScientificButton ''e'',
      NumberButton ''1'', NumberButton ''1'', ScientificButton ''e'']"

section \<open>Properties\<close>

subsection \<open>Rounding leaves a binary64 value as it is\<close>

lemma pow2_powi: "pow2 k = 2 powi k"
  by (simp add: pow2_def power_int_def field_simps)

lemma pow2_pos: "0 < pow2 k"
  by (simp add: pow2_powi)

lemma pow2_add: "pow2 (a + b) = pow2 a * pow2 b"
  by (simp add: pow2_powi power_int_add)

lemma pow2_less_iff: "pow2 a < pow2 b \<longleftrightarrow> a < b"
proof
  assume "pow2 a < pow2 b"
  show "a < b"
  proof (rule ccontr)
    assume "\<not> a < b"
    then have "b \<le> a" by simp
    then have "(2::rat) powi b \<le> 2 powi a" by (intro power_int_increasing) simp_all
    with \<open>pow2 a < pow2 b\<close> show False by (simp add: pow2_powi)
  qed
next
  assume "a < b"
  then have "(2::rat) powi a < 2 powi b" by (intro power_int_strict_increasing) simp_all
  then show "pow2 a < pow2 b" by (simp add: pow2_powi)
qed

lemma round_half_even_int: "round_half_even (of_int n) = n"
  by (simp add: round_half_even_def)

lemma ilog2_lower:
  assumes "0 < a"
  shows "pow2 (ilog2 a) \<le> a"
proof (cases "1 \<le> a")
  case True
  define n where "n = nat \<lfloor>a\<rfloor>"
  have n: "0 < n" using True by (simp add: n_def)
  have "2 ^ (floorlog 2 n - 1) \<le> n"
    using floorlog_bounds [of n 2] n by simp
  then have "(of_nat (2 ^ (floorlog 2 n - 1)) :: rat) \<le> of_nat n"
    using of_nat_le_iff by blast
  also have "(of_nat n :: rat) = of_int \<lfloor>a\<rfloor>"
    using True by (simp add: n_def)
  also have "\<dots> \<le> a" by simp
  finally have le: "(2::rat) ^ (floorlog 2 n - 1) \<le> a" by simp
  have "floorlog 2 n \<noteq> 0"
    using n by (simp add: floorlog_eq_zero_iff)
  then have "int (floorlog 2 n) - 1 = int (floorlog 2 n - 1)" by simp
  moreover have "ilog2 a = int (floorlog 2 n) - 1"
    unfolding ilog2_def n_def using True by (simp only: if_True)
  ultimately have "ilog2 a = int (floorlog 2 n - 1)" by linarith
  then have "pow2 (ilog2 a) = 2 ^ (floorlog 2 n - 1)"
    by (simp add: pow2_def)
  with le show ?thesis by simp
next
  case False
  define n where "n = nat (\<lceil>1 / a\<rceil> - 1)"
  define k where "k = floorlog 2 n"
  have il: "ilog2 a = - int k"
    unfolding ilog2_def n_def k_def using False by (simp only: if_False)
  have inv: "1 < 1 / a" using False assms by (simp add: field_simps)
  then have c: "1 < \<lceil>1 / a\<rceil>" by (simp add: less_ceiling_iff)
  then have n: "0 < n" unfolding n_def by linarith
  have "n < 2 ^ k"
    using floorlog_bounds [of n 2] n by (simp add: k_def)
  then have "int n < 2 ^ k"
    by (metis of_nat_less_iff of_nat_numeral of_nat_power)
  moreover have "0 \<le> \<lceil>1 / a\<rceil> - 1" using c by linarith
  then have "int n = \<lceil>1 / a\<rceil> - 1" unfolding n_def by (rule nat_0_le)
  ultimately have "\<lceil>1 / a\<rceil> \<le> 2 ^ k" by linarith
  then have "1 / a \<le> of_int (2 ^ k)" by (simp only: ceiling_le_iff)
  then have "1 / a \<le> 2 ^ k" by simp
  then have "1 \<le> 2 ^ k * a" using assms by (simp add: field_simps)
  then have "1 / 2 ^ k \<le> a" by (simp add: field_simps)
  then show ?thesis
    by (cases "k = 0") (simp_all add: il pow2_def)
qed

lemma ilog2_less:
  assumes "0 < a" and "a < pow2 k"
  shows "ilog2 a < k"
proof -
  have "pow2 (ilog2 a) < pow2 k"
    using ilog2_lower [OF assms(1)] assms(2) by simp
  then show ?thesis by (simp add: pow2_less_iff)
qed

lemma round64_exact:
  assumes m: "\<bar>m\<bar> < 2 ^ 53" and j: "- 1074 \<le> j" "j \<le> 971"
  shows "round64 (of_int m * pow2 j) = Fin (of_int m * pow2 j)"
proof (cases "m = 0")
  case True
  then show ?thesis by (simp add: round64_def)
next
  case False
  define q where "q = of_int m * pow2 j"
  define a where "a = \<bar>q\<bar>"
  define e where "e = max (ilog2 a) (- 1022)"
  define u where "u = pow2 (e - 52)"
  define d where "d = nat (j - (e - 52))"
  have a_eq: "a = of_int \<bar>m\<bar> * pow2 j"
    using pow2_pos [of j] by (simp add: a_def q_def abs_mult)
  have apos: "0 < a"
    using False pow2_pos [of j] by (simp add: a_eq)
  have "(of_int \<bar>m\<bar> :: rat) < of_int (2 ^ 53)"
    using m by (simp only: of_int_less_iff)
  then have "(of_int \<bar>m\<bar> :: rat) < pow2 53" by (simp add: pow2_def)
  then have "a < pow2 53 * pow2 j"
    unfolding a_eq using pow2_pos [of j] by (rule mult_strict_right_mono)
  then have a_less: "a < pow2 (53 + j)" by (simp add: pow2_add)
  then have "ilog2 a < 53 + j" using apos by (intro ilog2_less)
  then have ej: "e - 52 \<le> j" using j by (simp add: e_def)
  then have "j = (e - 52) + int d" by (simp add: d_def)
  then have "pow2 j = u * pow2 (int d)" by (simp add: u_def flip: pow2_add)
  also have "pow2 (int d) = of_int (2 ^ d)" by (simp add: pow2_def)
  finally have pj: "pow2 j = u * of_int (2 ^ d)" .
  have upos: "0 < u" by (simp add: u_def pow2_pos)
  have "a / u = of_int (\<bar>m\<bar> * 2 ^ d)"
    using upos by (simp add: a_eq pj)
  then have rhe: "round_half_even (a / u) = \<bar>m\<bar> * 2 ^ d"
    by (simp only: round_half_even_int)
  have "of_int (\<bar>m\<bar> * 2 ^ d) * u = a"
    by (simp add: a_eq pj)
  then have r: "of_int (round_half_even (a / u)) * u = a"
    by (simp only: rhe)
  have "pow2 (53 + j) \<le> pow2 1024"
    using j pow2_less_iff [of 1024 "53 + j"] by (simp add: not_less [symmetric])
  with a_less have no_ovf: "\<not> pow2 1024 \<le> a" by simp
  have q0: "q \<noteq> 0" using apos by (simp add: a_def)
  have a0: "a \<noteq> 0" using apos by simp
  have "round64 q = Fin (if 0 < q then a else - a)"
    unfolding round64_def Let_def
    using q0 no_ovf r a0
    by (simp only: a_def [symmetric] e_def [symmetric] u_def [symmetric] if_False)
  also have "(if 0 < q then a else - a) = q" by (simp add: a_def)
  finally show ?thesis by (simp only: q_def)
qed

lemma round64_int: "\<bar>k\<bar> < 2 ^ 53 \<Longrightarrow> round64 (of_int k) = Fin (of_int k)"
  using round64_exact [of k 0] by (simp add: pow2_def)

subsection \<open>Invariants of the handlers\<close>

lemmas handler_defs = handleNumber_def handleDecimal_def handleOperation_def handleEquals_def
  handleScientific_def handleClear_def handleAllClear_def handleMemory_def backspace_def
  recallHistoryEntry_def

lemma run_snoc: "run P (evs @ [ev]) = step P (run P evs) ev"
  by (simp add: run_def)

lemma length_push_history: "length (push_history e h) \<le> 10"
  by (simp add: push_history_def)

lemma push_history_capped:
  "length h \<le> 10 \<Longrightarrow> push_history e h = e # (if length h = 10 then butlast h else h)"
  by (simp add: push_history_def butlast_conv_take)

lemma history_handleOperation:
  "history_step (history s) (history (handleOperation P op s))"
  by (simp add: handleOperation_def history_step_def Let_def split: option.split sum.split) blast

lemma history_handleEquals:
  "history_step (history s) (history (handleEquals P s))"
  by (simp add: handleEquals_def history_step_def Let_def split: option.split sum.split) blast

lemma history_handleScientific:
  "history_step (history s) (history (handleScientific P func s))"
  by (simp add: handleScientific_def history_step_def Let_def split: option.split sum.split) blast

lemma history_handleKeyPress:
  "history_step (history s) (history (handleKeyPress P key s))"
  using history_handleOperation [of s P key] history_handleEquals [of s P]
  by (simp add: handleKeyPress_def handleNumber_def handleDecimal_def handleClear_def
      backspace_def Let_def) (simp add: history_step_def)

lemma history_of_step:
  "history_step (history s) (history (step P s ev))"
proof (cases ev)
  case (OperationButton op)
  then show ?thesis using history_handleOperation by simp
next
  case EqualsButton
  then show ?thesis using history_handleEquals by simp
next
  case (ScientificButton func)
  then show ?thesis using history_handleScientific by simp
next
  case (KeyDown key)
  then show ?thesis using history_handleKeyPress by simp
qed (simp_all add: history_step_def handler_defs Let_def)

lemma length_history_step:
  "history_step h h' \<Longrightarrow> length h \<le> 10 \<Longrightarrow> length h' \<le> 10"
  by (auto simp: history_step_def length_push_history)

lemma length_history_run: "length (history (run P evs)) \<le> 10"
proof (induction evs rule: rev_induct)
  case Nil
  show ?case by (simp add: run_def initial_def)
next
  case (snoc ev evs)
  then show ?case
    using length_history_step [OF history_of_step] by (simp add: run_snoc)
qed

lemma coherent_handleOperation: "coherent (handleOperation P op s)"
  by (simp add: handleOperation_def coherent_def Let_def split: option.split sum.split prod.split)

lemma coherent_handleEquals: "coherent s \<Longrightarrow> coherent (handleEquals P s)"
  by (simp add: handleEquals_def coherent_def Let_def split: option.split sum.split prod.split)

lemma coherent_handleScientific: "coherent s \<Longrightarrow> coherent (handleScientific P func s)"
  by (simp add: handleScientific_def coherent_def Let_def split: option.split sum.split)

lemma coherent_handleKeyPress: "coherent s \<Longrightarrow> coherent (handleKeyPress P key s)"
  using coherent_handleOperation [of P key s] coherent_handleEquals [of s P]
  by (simp add: handleKeyPress_def) (simp add: coherent_def handleNumber_def handleDecimal_def handleClear_def
      backspace_def Let_def)

lemma coherent_step: "coherent s \<Longrightarrow> coherent (step P s ev)"
proof (cases ev)
  case (OperationButton op)
  then show ?thesis using coherent_handleOperation by simp
next
  case EqualsButton
  assume "coherent s"
  with EqualsButton show ?thesis using coherent_handleEquals by simp
next
  case (ScientificButton func)
  assume "coherent s"
  with ScientificButton show ?thesis using coherent_handleScientific by simp
next
  case (KeyDown key)
  assume "coherent s"
  with KeyDown show ?thesis using coherent_handleKeyPress by simp
qed (simp_all add: coherent_def handler_defs Let_def)

lemma coherent_run: "coherent (run P evs)"
proof (induction evs rule: rev_induct)
  case Nil
  show ?case by (simp add: run_def initial_def coherent_def)
next
  case (snoc ev evs)
  then show ?case by (simp add: run_snoc coherent_step)
qed

lemmas parse_defs = parseFloat_def unsigned_literal_def is_white_space_def is_digit_def
      decimal_value_def digit_value_def exponent_part_def pow10_def Let_def

lemma round64_small:
  "round64 0 = Fin 0" "round64 1 = Fin 1" "round64 2 = Fin 2" "round64 3 = Fin 3"
  "round64 4 = Fin 4" "round64 5 = Fin 5" "round64 6 = Fin 6" "round64 7 = Fin 7"
  "round64 14 = Fin 14" "round64 24 = Fin 24" "round64 42 = Fin 42" "round64 120 = Fin 120"
  "round64 (5 / 2) = Fin (5 / 2)"
  using round64_int [of 0] round64_int [of 1] round64_int [of 2] round64_int [of 3]
    round64_int [of 4] round64_int [of 5] round64_int [of 6] round64_int [of 7]
    round64_int [of 14] round64_int [of 24] round64_int [of 42] round64_int [of 120]
    round64_exact [of 5 "- 1"]
  by (simp_all add: pow2_def)

lemma parseFloat_small:
  "parseFloat ''0'' = Fin 0" "parseFloat ''2'' = Fin 2" "parseFloat ''3'' = Fin 3"
  "parseFloat ''4'' = Fin 4" "parseFloat ''5'' = Fin 5" "parseFloat ''7'' = Fin 7"
  "parseFloat ''42'' = Fin 42" "parseFloat ''-1'' = Fin (- 1)" "parseFloat ''2.5'' = Fin (5 / 2)"
  by (simp_all add: parse_defs round64_small)

lemma parseFloat_upto_11:
  "parseFloat ''1'' = Fin 1" "parseFloat ''6'' = Fin 6" "parseFloat ''8'' = Fin 8"
  "parseFloat ''9'' = Fin 9" "parseFloat ''10'' = Fin 10" "parseFloat ''11'' = Fin 11"
  using round64_int [of 1] round64_int [of 6] round64_int [of 8] round64_int [of 9]
    round64_int [of 10] round64_int [of 11]
  by (simp_all add: parse_defs)

lemma eleven_constants:
  "history (run P
     [NumberButton ''1'', ScientificButton ''e'', NumberButton ''2'', ScientificButton ''e'',
      NumberButton ''3'', ScientificButton ''e'', NumberButton ''4'', ScientificButton ''e'',
      NumberButton ''5'', ScientificButton ''e'', NumberButton ''6'', ScientificButton ''e'',
      NumberButton ''7'', ScientificButton ''e'', NumberButton ''8'', ScientificButton ''e'',
      NumberButton ''9'', ScientificButton ''e'',
      NumberButton ''1'', NumberButton ''0'', ScientificButton ''e'',
      NumberButton ''1'', NumberButton ''1'', ScientificButton ''e''])
   = map (\<lambda>k. \<lparr>expression = ''e('' @ k @ '')'', result = String P Math_E\<rparr>)
       [''11'', ''10'', ''9'', ''8'', ''7'', ''6'', ''5'', ''4'', ''3'', ''2'']"
  by (simp add: run_def initial_def handleNumber_def handleScientific_def scientific_def
        push_history_def Let_def parseFloat_small parseFloat_upto_11)
     (simp add: String_def nat_digits.simps)

lemma parseFloat_Error: "parseFloat ''Error'' = NaN"
  by (simp add: parse_defs)

lemma not_isInteger_half: "\<not> isInteger (Fin (5 / 2))"
  using floor_divide_of_int_eq [of 5 2, where ?'a = rat] by (simp add: isInteger_def)

lemmas number_defs = js_add_def js_sub_def js_mul_def finite_value_def is_zero_def
  negative_def zero_of_def truthy_def js_lt0_def

lemma factorial_more_frames:
  "factorial k n = Some r \<Longrightarrow> factorial (k + j) n = Some r"
proof (induction k arbitrary: n r)
  case 0
  then show ?case by simp
next
  case (Suc k)
  show ?case
  proof (cases "is_zero n \<or> n = Fin 1")
    case True
    with Suc.prems show ?thesis by simp
  next
    case False
    with Suc.prems obtain r' where
      r': "factorial k (js_sub n (Fin 1)) = Some r'" and r: "r = js_mul n r'"
      by auto
    from Suc.IH [OF r'] have "factorial (k + j) (js_sub n (Fin 1)) = Some r'" .
    with False r show ?thesis by simp
  qed
qed

lemma factorial_5_frames:
  "factorial (Suc (Suc (Suc (Suc (Suc 0))))) (Fin 5) = Some (Fin 120)"
  by (simp add: number_defs round64_small)

lemma factorial_5: "factorial (stack_frames P) (Fin 5) = Some (Fin 120)"
proof -
  have e: "stack_frames P = Suc (Suc (Suc (Suc (Suc 0)))) + (11 + spare_frames P)"
    by (simp add: stack_frames_def)
  show ?thesis
    unfolding e by (rule factorial_more_frames [OF factorial_5_frames])
qed

lemmas eval_defs = run_def initial_def handler_defs pending_def calculate_def push_history_def
  number_defs String_def nat_digits.simps scientific_def
  isInteger_def parseFloat_small round64_small

subsection \<open>Error handling\<close>

text \<open>
  C1. The sequence \<^verbatim>\<open>5\<close>, \<^verbatim>\<open>/\<close>, \<^verbatim>\<open>0\<close>, \<^verbatim>\<open>=\<close> from the first render sets the error flag
  and puts the sentinel \<^verbatim>\<open>Error\<close> on the display. The digit \<^verbatim>\<open>7\<close> that follows clears the
  flag; \<^verbatim>\<open>handleNumber\<close> then builds the new display from the display of the render it was
  created in, which is still the sentinel, so the display becomes \<^verbatim>\<open>Error7\<close> and not
  \<^verbatim>\<open>7\<close>. The \<^verbatim>\<open>setDisplay('0')\<close> of the error branch is overwritten by the second
  \<^verbatim>\<open>setDisplay\<close> of the same call; \<^verbatim>\<open>handleDecimal\<close> returns right after its error branch.
\<close>

theorem digit_after_error_keeps_sentinel:
  "isError (run P [NumberButton ''5'', OperationButton ''/'', NumberButton ''0'', EqualsButton])
   \<and> display (run P [NumberButton ''5'', OperationButton ''/'', NumberButton ''0'', EqualsButton])
       = ''Error''
   \<and> \<not> isError (run P [NumberButton ''5'', OperationButton ''/'', NumberButton ''0'',
                       EqualsButton, NumberButton ''7''])
   \<and> display (run P [NumberButton ''5'', OperationButton ''/'', NumberButton ''0'',
                     EqualsButton, NumberButton ''7'']) = ''Error7''"
  by (simp add: eval_defs)

text \<open>
  A combine that fails in \<^verbatim>\<open>handleOperation\<close> or in \<^verbatim>\<open>handleEquals\<close> sets the error
  flag, leaves the history as it was and clears the pending operand and operator. A
  scientific function that fails sets the error flag and leaves the history as it was.
\<close>

lemma failing_combine_error_state:
  "(pending s = Some (pv, op)
      \<and> calculate P (if truthy pv then pv else Fin 0) (parseFloat (display s)) op = Inl err
    \<longrightarrow> handleOperation P nextOperation s
        = s\<lparr>display := ''Error'', isError := True, previousValue := None, operation := None\<rparr>)
   \<and> (pending s = Some (pv, op) \<and> calculate P pv (parseFloat (display s)) op = Inl err
    \<longrightarrow> handleEquals P s
        = s\<lparr>display := ''Error'', isError := True, previousValue := None, operation := None\<rparr>)"
proof (intro conjI impI)
  assume h: "pending s = Some (pv, op)
      \<and> calculate P (if truthy pv then pv else Fin 0) (parseFloat (display s)) op = Inl err"
  then have pv: "previousValue s \<noteq> None"
    by (auto simp: pending_def split: option.splits)
  show "handleOperation P nextOperation s
      = s\<lparr>display := ''Error'', isError := True, previousValue := None, operation := None\<rparr>"
    using h pv by (auto simp add: handleOperation_def Let_def)
next
  assume h: "pending s = Some (pv, op) \<and> calculate P pv (parseFloat (display s)) op = Inl err"
  show "handleEquals P s
      = s\<lparr>display := ''Error'', isError := True, previousValue := None, operation := None\<rparr>"
    using h by (simp add: handleEquals_def Let_def)
qed

lemma failing_scientific_error_state:
  "scientific P func (parseFloat (display s)) = Some (Inl err)
   \<Longrightarrow> handleScientific P func s = s\<lparr>display := ''Error'', isError := True\<rparr>"
  by (simp add: handleScientific_def Let_def)

text \<open>
  C2. Every failing operation is to set the error flag, leave the history as it was and
  clear the pending operand and operator. The error branches of \<^verbatim>\<open>handleOperation\<close> and
  \<^verbatim>\<open>handleEquals\<close> do so: after \<^verbatim>\<open>5\<close>, \<^verbatim>\<open>/\<close>, \<^verbatim>\<open>0\<close> both \<^verbatim>\<open>=\<close> and \<^verbatim>\<open>+\<close> leave no pending
  pair. The error branch of \<^verbatim>\<open>handleScientific\<close> has neither \<^verbatim>\<open>setPreviousValue(null)\<close>
  nor \<^verbatim>\<open>setOperation(null)\<close>: after \<^verbatim>\<open>5\<close>, \<^verbatim>\<open>+\<close>, \<^verbatim>\<open>0\<close> the reciprocal fails, the error
  flag is set and the history is as it was, and the operand \<open>5\<close> and the operator \<^verbatim>\<open>+\<close> are
  still pending. A \<^verbatim>\<open>=\<close> that follows combines them with the sentinel: the display becomes
  \<^verbatim>\<open>NaN\<close>, the entry \<^verbatim>\<open>5 + NaN\<close> enters the history and the error flag stays set.
\<close>

theorem failed_scientific_keeps_pending:
  "previousValue (run P [NumberButton ''5'', OperationButton ''/'', NumberButton ''0'', EqualsButton]) = None
   \<and> operation (run P [NumberButton ''5'', OperationButton ''/'', NumberButton ''0'', EqualsButton]) = None
   \<and> previousValue (run P [NumberButton ''5'', OperationButton ''/'', NumberButton ''0'',
        OperationButton ''+'']) = None
   \<and> operation (run P [NumberButton ''5'', OperationButton ''/'', NumberButton ''0'',
        OperationButton ''+'']) = None
   \<and> scientific P ''1/x'' (parseFloat (display (run P [NumberButton ''5'', OperationButton ''+'', NumberButton ''0''])))
       = Some (Inl (Error ''Division by zero''))
   \<and> isError (run P [NumberButton ''5'', OperationButton ''+'', NumberButton ''0'',
        ScientificButton ''1/x''])
   \<and> display (run P [NumberButton ''5'', OperationButton ''+'', NumberButton ''0'',
        ScientificButton ''1/x'']) = ''Error''
   \<and> history (run P [NumberButton ''5'', OperationButton ''+'', NumberButton ''0'',
        ScientificButton ''1/x'']) = history (run P [NumberButton ''5'', OperationButton ''+'', NumberButton ''0''])
   \<and> previousValue (run P [NumberButton ''5'', OperationButton ''+'', NumberButton ''0'',
        ScientificButton ''1/x'']) = Some (Fin 5)
   \<and> operation (run P [NumberButton ''5'', OperationButton ''+'', NumberButton ''0'',
        ScientificButton ''1/x'']) = Some ''+''
   \<and> display (run P [NumberButton ''5'', OperationButton ''+'', NumberButton ''0'',
        ScientificButton ''1/x'', EqualsButton]) = ''NaN''
   \<and> history (run P [NumberButton ''5'', OperationButton ''+'', NumberButton ''0'',
        ScientificButton ''1/x'', EqualsButton]) = [\<lparr>expression = ''5 + NaN'', result = ''NaN''\<rparr>]
   \<and> isError (run P [NumberButton ''5'', OperationButton ''+'', NumberButton ''0'',
        ScientificButton ''1/x'', EqualsButton])"
  by (simp add: eval_defs parseFloat_Error)

subsection \<open>Chaining\<close>

text \<open>
  C3. Binary operators chain from left to right, without precedence: \<^verbatim>\<open>3\<close>, \<^verbatim>\<open>+\<close>, \<^verbatim>\<open>4\<close>,
  \<^verbatim>\<open>*\<close>, \<^verbatim>\<open>2\<close>, \<^verbatim>\<open>=\<close> from the first render leaves \<^verbatim>\<open>14\<close> on the display, which is
  \<open>(3 + 4) * 2\<close>.
\<close>

theorem chaining_left_to_right:
  "display (run P [NumberButton ''3'', OperationButton ''+'', NumberButton ''4'',
                   OperationButton ''*'', NumberButton ''2'', EqualsButton]) = ''14''"
  by (simp add: eval_defs)

subsection \<open>The history log and the pending pair\<close>

lemma full_log:
  "run plain_platform (constants_1_to_11 @ evs)
   = foldl (step plain_platform)
       \<lparr>display = String plain_platform Math_E, previousValue = None, operation = None,
        waitingForNewValue = True,
        memory = Fin 0,
        history = map (\<lambda>k. \<lparr>expression = ''e('' @ k @ '')'', result = String plain_platform Math_E\<rparr>)
          [''11'', ''10'', ''9'', ''8'', ''7'', ''6'', ''5'', ''4'', ''3'', ''2''],
        showHistory = False, isError = False\<rparr> evs"
  by (simp add: run_def constants_1_to_11_def initial_def handleNumber_def
        handleScientific_def scientific_def push_history_def Let_def parseFloat_small
        parseFloat_upto_11)
     (simp add: String_def nat_digits.simps)

text \<open>
  C4. After any sequence of events the log has at most 10 entries. One more event leaves
  the log as it is, empties it, or puts one new entry at index 0 in front of the old ones,
  and when the log was full the new log has lost its last, oldest, entry. The operations
  that append are a combine that succeeds in \<^verbatim>\<open>handleOperation\<close> or in \<^verbatim>\<open>handleEquals\<close>
  and a scientific function that succeeds: in every state each puts its entry in front of
  the first 9 entries of the old log. The constant \<^verbatim>\<open>e\<close> is an operation that appends in
  every state: applied to the entries \<^verbatim>\<open>1\<close> to \<^verbatim>\<open>11\<close> in turn it leaves the ten entries for
  \<^verbatim>\<open>11\<close> down to \<^verbatim>\<open>2\<close>, newest first, and the entry for \<^verbatim>\<open>1\<close> is gone.
\<close>

theorem history_capped_newest_first:
  "length (history (run P evs)) \<le> 10
   \<and> (history (step P (run P evs) ev) = history (run P evs)
      \<or> history (step P (run P evs) ev) = []
      \<or> (\<exists>e. history (step P (run P evs) ev)
               = e # (if length (history (run P evs)) = 10 then butlast (history (run P evs))
                      else history (run P evs))))
   \<and> (pending s = Some (pv, op)
        \<and> calculate P (if truthy pv then pv else Fin 0) (parseFloat (display s)) op = Inr v
      \<longrightarrow> history (handleOperation P nextOperation s)
          = \<lparr>expression = String P (if truthy pv then pv else Fin 0) @ '' '' @ op @ '' ''
                          @ String P (parseFloat (display s)),
             result = String P v\<rparr> # take 9 (history s))
   \<and> (pending s = Some (pv, op) \<and> calculate P pv (parseFloat (display s)) op = Inr v
      \<longrightarrow> history (handleEquals P s)
          = \<lparr>expression = String P pv @ '' '' @ op @ '' '' @ String P (parseFloat (display s)),
             result = String P v\<rparr> # take 9 (history s))
   \<and> (scientific P func (parseFloat (display s)) = Some (Inr r)
      \<longrightarrow> history (handleScientific P func s)
          = \<lparr>expression = func @ ''('' @ String P (parseFloat (display s)) @ '')'',
             result = String P r\<rparr> # take 9 (history s))
   \<and> history (handleScientific P ''e'' s)
       = \<lparr>expression = ''e('' @ String P (parseFloat (display s)) @ '')'',
          result = String P Math_E\<rparr> # take 9 (history s)
   \<and> history (run P
       [NumberButton ''1'', ScientificButton ''e'', NumberButton ''2'', ScientificButton ''e'',
        NumberButton ''3'', ScientificButton ''e'', NumberButton ''4'', ScientificButton ''e'',
        NumberButton ''5'', ScientificButton ''e'', NumberButton ''6'', ScientificButton ''e'',
        NumberButton ''7'', ScientificButton ''e'', NumberButton ''8'', ScientificButton ''e'',
        NumberButton ''9'', ScientificButton ''e'',
        NumberButton ''1'', NumberButton ''0'', ScientificButton ''e'',
        NumberButton ''1'', NumberButton ''1'', ScientificButton ''e''])
     = map (\<lambda>k. \<lparr>expression = ''e('' @ k @ '')'', result = String P Math_E\<rparr>)
         [''11'', ''10'', ''9'', ''8'', ''7'', ''6'', ''5'', ''4'', ''3'', ''2'']"
proof -
  have len: "length (history (run P evs)) \<le> 10"
    by (rule length_history_run)
  have "history_step (history (run P evs)) (history (step P (run P evs) ev))"
    by (rule history_of_step)
  then have "history (step P (run P evs) ev) = history (run P evs)
      \<or> history (step P (run P evs) ev) = []
      \<or> (\<exists>e. history (step P (run P evs) ev)
               = e # (if length (history (run P evs)) = 10 then butlast (history (run P evs))
                      else history (run P evs)))"
    unfolding history_step_def using push_history_capped [OF len] by metis
  moreover have "history (handleScientific P ''e'' s)
       = \<lparr>expression = ''e('' @ String P (parseFloat (display s)) @ '')'',
          result = String P Math_E\<rparr> # take 9 (history s)"
    by (simp add: handleScientific_def scientific_def push_history_def Let_def)
  moreover have "pending s = Some (pv, op)
        \<and> calculate P (if truthy pv then pv else Fin 0) (parseFloat (display s)) op = Inr v
      \<longrightarrow> history (handleOperation P nextOperation s)
          = \<lparr>expression = String P (if truthy pv then pv else Fin 0) @ '' '' @ op @ '' ''
                          @ String P (parseFloat (display s)),
             result = String P v\<rparr> # take 9 (history s)"
  proof
    assume h: "pending s = Some (pv, op)
        \<and> calculate P (if truthy pv then pv else Fin 0) (parseFloat (display s)) op = Inr v"
    then have "previousValue s \<noteq> None"
      by (auto simp: pending_def split: option.splits)
    with h show "history (handleOperation P nextOperation s)
          = \<lparr>expression = String P (if truthy pv then pv else Fin 0) @ '' '' @ op @ '' ''
                          @ String P (parseFloat (display s)),
             result = String P v\<rparr> # take 9 (history s)"
      by (auto simp add: handleOperation_def push_history_def Let_def)
  qed
  moreover have "pending s = Some (pv, op) \<and> calculate P pv (parseFloat (display s)) op = Inr v
      \<longrightarrow> history (handleEquals P s)
          = \<lparr>expression = String P pv @ '' '' @ op @ '' '' @ String P (parseFloat (display s)),
             result = String P v\<rparr> # take 9 (history s)"
    by (simp add: handleEquals_def push_history_def Let_def)
  moreover have "scientific P func (parseFloat (display s)) = Some (Inr r)
      \<longrightarrow> history (handleScientific P func s)
          = \<lparr>expression = func @ ''('' @ String P (parseFloat (display s)) @ '')'',
             result = String P r\<rparr> # take 9 (history s)"
    by (simp add: handleScientific_def push_history_def Let_def)
  ultimately show ?thesis using len eleven_constants [of P] by blast
qed

text \<open>
  The three ways to append, each on a full log: the ten entries of the constants for \<^verbatim>\<open>11\<close>
  down to \<^verbatim>\<open>2\<close>. The new entry is at index 0 and the entry for \<^verbatim>\<open>2\<close> is gone.
\<close>

theorem history_capped_newest_first_witness:
  "pending (run plain_platform (constants_1_to_11 @
        [NumberButton ''3'', OperationButton ''+'', NumberButton ''4''])) = Some (Fin 3, ''+'')
   \<and> calculate plain_platform (if truthy (Fin 3) then Fin 3 else Fin 0)
       (parseFloat (display (run plain_platform (constants_1_to_11 @
        [NumberButton ''3'', OperationButton ''+'', NumberButton ''4''])))) ''+'' = Inr (Fin 7)
   \<and> calculate plain_platform (Fin 3) (parseFloat (display (run plain_platform (constants_1_to_11 @
        [NumberButton ''3'', OperationButton ''+'', NumberButton ''4''])))) ''+'' = Inr (Fin 7)
   \<and> scientific plain_platform ''!'' (parseFloat (display (run plain_platform (constants_1_to_11 @ [NumberButton ''5''])))) = Some (Inr (Fin 120))
   \<and> length (history (run plain_platform (constants_1_to_11 @
        [NumberButton ''3'', OperationButton ''+'', NumberButton ''4'']))) = 10
   \<and> length (history (run plain_platform (constants_1_to_11 @ [NumberButton ''5'']))) = 10
   \<and> history (handleOperation plain_platform ''*'' (run plain_platform (constants_1_to_11 @
        [NumberButton ''3'', OperationButton ''+'', NumberButton ''4''])))
       = \<lparr>expression = ''3 + 4'', result = ''7''\<rparr> # map (\<lambda>k. \<lparr>expression = ''e('' @ k @ '')'', result = String plain_platform Math_E\<rparr>)
          [''11'', ''10'', ''9'', ''8'', ''7'', ''6'', ''5'', ''4'', ''3'']
   \<and> history (handleEquals plain_platform (run plain_platform (constants_1_to_11 @
        [NumberButton ''3'', OperationButton ''+'', NumberButton ''4''])))
       = \<lparr>expression = ''3 + 4'', result = ''7''\<rparr> # map (\<lambda>k. \<lparr>expression = ''e('' @ k @ '')'', result = String plain_platform Math_E\<rparr>)
          [''11'', ''10'', ''9'', ''8'', ''7'', ''6'', ''5'', ''4'', ''3'']
   \<and> history (handleScientific plain_platform ''!'' (run plain_platform (constants_1_to_11 @ [NumberButton ''5''])))
       = \<lparr>expression = ''!(5)'', result = ''120''\<rparr> # map (\<lambda>k. \<lparr>expression = ''e('' @ k @ '')'', result = String plain_platform Math_E\<rparr>)
          [''11'', ''10'', ''9'', ''8'', ''7'', ''6'', ''5'', ''4'', ''3'']"
proof -
  have w: "(run plain_platform (constants_1_to_11 @
        [NumberButton ''3'', OperationButton ''+'', NumberButton ''4''])) = \<lparr>display = ''4'', previousValue = Some (Fin 3), operation = Some ''+'',
      waitingForNewValue = False, memory = Fin 0,
      history = map (\<lambda>k. \<lparr>expression = ''e('' @ k @ '')'', result = String plain_platform Math_E\<rparr>)
          [''11'', ''10'', ''9'', ''8'', ''7'', ''6'', ''5'', ''4'', ''3'', ''2''],
      showHistory = False, isError = False\<rparr>"
    using full_log [of "[NumberButton ''3'', OperationButton ''+'', NumberButton ''4'']"]
    by (simp add: handleNumber_def handleOperation_def Let_def parseFloat_small)
  have w5: "(run plain_platform (constants_1_to_11 @ [NumberButton ''5''])) = \<lparr>display = ''5'', previousValue = None, operation = None,
      waitingForNewValue = False, memory = Fin 0,
      history = map (\<lambda>k. \<lparr>expression = ''e('' @ k @ '')'', result = String plain_platform Math_E\<rparr>)
          [''11'', ''10'', ''9'', ''8'', ''7'', ''6'', ''5'', ''4'', ''3'', ''2''],
      showHistory = False, isError = False\<rparr>"
    using full_log [of "[NumberButton ''5'']"]
    by (simp add: handleNumber_def)
  have h1: "pending (run plain_platform (constants_1_to_11 @
        [NumberButton ''3'', OperationButton ''+'', NumberButton ''4''])) = Some (Fin 3, ''+'')"
    by (simp add: w pending_def)
  have h2: "calculate plain_platform (if truthy (Fin 3) then Fin 3 else Fin 0)
       (parseFloat (display (run plain_platform (constants_1_to_11 @
        [NumberButton ''3'', OperationButton ''+'', NumberButton ''4''])))) ''+'' = Inr (Fin 7)"
    by (simp add: w calculate_def parseFloat_small number_defs round64_small)
  have h3: "calculate plain_platform (Fin 3) (parseFloat (display (run plain_platform (constants_1_to_11 @
        [NumberButton ''3'', OperationButton ''+'', NumberButton ''4''])))) ''+'' = Inr (Fin 7)"
    by (simp add: w calculate_def parseFloat_small number_defs round64_small)
  have h4: "scientific plain_platform ''!'' (parseFloat (display (run plain_platform (constants_1_to_11 @ [NumberButton ''5''])))) = Some (Inr (Fin 120))"
    by (simp add: w5 scientific_def parseFloat_small factorial_5 js_lt0_def isInteger_def)
  have s3: "String plain_platform (Fin 3) = ''3''" "String plain_platform (Fin 4) = ''4''"
    "String plain_platform (Fin 5) = ''5''" "String plain_platform (Fin 7) = ''7''"
    "String plain_platform (Fin 120) = ''120''"
    by (simp_all add: String_def nat_digits.simps)
  have p: "parseFloat (display (run plain_platform (constants_1_to_11 @
        [NumberButton ''3'', OperationButton ''+'', NumberButton ''4'']))) = Fin 4" "parseFloat (display (run plain_platform (constants_1_to_11 @ [NumberButton ''5'']))) = Fin 5"
    by (simp_all add: w w5 parseFloat_small)
  have t: "truthy (Fin 3)"
    by (simp add: number_defs)
  note thm1 = history_capped_newest_first [where s = "(run plain_platform (constants_1_to_11 @
        [NumberButton ''3'', OperationButton ''+'', NumberButton ''4'']))" and pv = "Fin 3" and op = "''+''"
      and P = plain_platform and v = "Fin 7" and nextOperation = "''*''"]
  note thm2 = history_capped_newest_first [where s = "(run plain_platform (constants_1_to_11 @ [NumberButton ''5'']))" and func = "''!''"
      and P = plain_platform and r = "Fin 120"]
  from thm1 h1 h2 have c1: "history (handleOperation plain_platform ''*'' (run plain_platform (constants_1_to_11 @
        [NumberButton ''3'', OperationButton ''+'', NumberButton ''4''])))
       = \<lparr>expression = ''3 + 4'', result = ''7''\<rparr> # take 9 (history (run plain_platform (constants_1_to_11 @
        [NumberButton ''3'', OperationButton ''+'', NumberButton ''4''])))"
    by (simp add: p s3 t)
  from thm1 h1 h3 have c2: "history (handleEquals plain_platform (run plain_platform (constants_1_to_11 @
        [NumberButton ''3'', OperationButton ''+'', NumberButton ''4''])))
       = \<lparr>expression = ''3 + 4'', result = ''7''\<rparr> # take 9 (history (run plain_platform (constants_1_to_11 @
        [NumberButton ''3'', OperationButton ''+'', NumberButton ''4''])))"
    by (simp add: p s3 t)
  from thm2 h4 have c3: "history (handleScientific plain_platform ''!'' (run plain_platform (constants_1_to_11 @ [NumberButton ''5''])))
       = \<lparr>expression = ''!(5)'', result = ''120''\<rparr> # take 9 (history (run plain_platform (constants_1_to_11 @ [NumberButton ''5''])))"
    by (simp add: p s3)
  have l: "length (history (run plain_platform (constants_1_to_11 @
        [NumberButton ''3'', OperationButton ''+'', NumberButton ''4'']))) = 10" "length (history (run plain_platform (constants_1_to_11 @ [NumberButton ''5'']))) = 10"
    by (simp_all add: w w5)
  have k: "take 9 (history (run plain_platform (constants_1_to_11 @
        [NumberButton ''3'', OperationButton ''+'', NumberButton ''4'']))) = map (\<lambda>k. \<lparr>expression = ''e('' @ k @ '')'', result = String plain_platform Math_E\<rparr>)
          [''11'', ''10'', ''9'', ''8'', ''7'', ''6'', ''5'', ''4'', ''3'']" "take 9 (history (run plain_platform (constants_1_to_11 @ [NumberButton ''5'']))) = map (\<lambda>k. \<lparr>expression = ''e('' @ k @ '')'', result = String plain_platform Math_E\<rparr>)
          [''11'', ''10'', ''9'', ''8'', ''7'', ''6'', ''5'', ''4'', ''3'']"
    by (simp_all add: w w5)
  from h1 h2 h3 h4 l c1 c2 c3 k show ?thesis by simp
qed

text \<open>
  C5. After any sequence of events the pending operand and the pending operator are both
  present or both absent.
\<close>

theorem pending_pair_coherent:
  "(previousValue (run P evs) = None) = (operation (run P evs) = None)"
  using coherent_run [of P evs] by (simp only: coherent_def)

subsection \<open>The decimal point\<close>

text \<open>
  Against C6 as it is written: after \<^verbatim>\<open>3\<close>, \<^verbatim>\<open>.\<close>, \<^verbatim>\<open>5\<close>, \<^verbatim>\<open>+\<close> the display \<^verbatim>\<open>3.5\<close> has a
  decimal point and the component waits for a new entry; a decimal point now replaces the
  display by \<^verbatim>\<open>0.\<close>.
\<close>

theorem decimal_point_restarts_entry:
  "CHR ''.'' \<in> set (display (run plain_platform [NumberButton ''3'', DecimalButton, NumberButton ''5'',
        OperationButton ''+'']))
   \<and> display (run plain_platform [NumberButton ''3'', DecimalButton, NumberButton ''5'',
        OperationButton ''+'']) = ''3.5''
   \<and> display (handleDecimal (run plain_platform [NumberButton ''3'', DecimalButton, NumberButton ''5'',
        OperationButton ''+''])) = ''0.''"
  by (simp add: eval_defs)

text \<open>
  C6, as the handler has it. In every state a second decimal point in a row leaves the
  display of the first. When the display has a decimal point and neither the error flag
  nor the flag that waits for a new entry is set, a decimal point changes nothing at all.
\<close>

theorem handleDecimal_idempotent:
  "display (handleDecimal (handleDecimal s)) = display (handleDecimal s)
   \<and> (\<not> isError s \<and> \<not> waitingForNewValue s \<and> CHR ''.'' \<in> set (display s)
      \<longrightarrow> handleDecimal s = s)"
  by (simp add: handleDecimal_def)

theorem handleDecimal_idempotent_witness:
  "\<not> isError (run plain_platform [NumberButton ''3'', DecimalButton, NumberButton ''5'']) \<and> \<not> waitingForNewValue (run plain_platform [NumberButton ''3'', DecimalButton, NumberButton ''5'']) \<and> CHR ''.'' \<in> set (display (run plain_platform [NumberButton ''3'', DecimalButton, NumberButton ''5'']))
   \<and> handleDecimal (run plain_platform [NumberButton ''3'', DecimalButton, NumberButton ''5'']) = (run plain_platform [NumberButton ''3'', DecimalButton, NumberButton ''5''])
   \<and> display (handleDecimal (handleDecimal (run plain_platform [NumberButton ''3'', DecimalButton, NumberButton ''5'']))) = ''3.5''"
proof -
  have h: "\<not> isError (run plain_platform [NumberButton ''3'', DecimalButton, NumberButton ''5'']) \<and> \<not> waitingForNewValue (run plain_platform [NumberButton ''3'', DecimalButton, NumberButton ''5'']) \<and> CHR ''.'' \<in> set (display (run plain_platform [NumberButton ''3'', DecimalButton, NumberButton ''5'']))"
    by (simp add: eval_defs)
  have d: "display (run plain_platform [NumberButton ''3'', DecimalButton, NumberButton ''5'']) = ''3.5''"
    by (simp add: eval_defs)
  from handleDecimal_idempotent [of "run plain_platform [NumberButton ''3'', DecimalButton, NumberButton ''5'']"] h
  have c: "handleDecimal (run plain_platform [NumberButton ''3'', DecimalButton, NumberButton ''5'']) = (run plain_platform [NumberButton ''3'', DecimalButton, NumberButton ''5''])" by blast
  from h c d show ?thesis by simp
qed

subsection \<open>Reset\<close>

text \<open>
  C7. In every state, \<^verbatim>\<open>handleAllClear\<close> gives display \<^verbatim>\<open>0\<close>, no pending operand or
  operator, both flags cleared, memory \<open>0\<close> and an empty history; \<^verbatim>\<open>handleClear\<close> resets
  the display, the pending pair and the flags in the same way and leaves memory and
  history as they were.
\<close>

theorem clear_and_allClear:
  "handleAllClear s =
     \<lparr>display = ''0'', previousValue = None, operation = None, waitingForNewValue = False,
      memory = Fin 0, history = [], showHistory = showHistory s, isError = False\<rparr>
   \<and> handleClear s =
     \<lparr>display = ''0'', previousValue = None, operation = None, waitingForNewValue = False,
      memory = memory s, history = history s, showHistory = showHistory s, isError = False\<rparr>"
  by (simp add: handleAllClear_def handleClear_def)

subsection \<open>Scientific functions\<close>

text \<open>
  C8. With \<^verbatim>\<open>5\<close> on the display the factorial gives display \<^verbatim>\<open>120\<close> and puts the entry
  with expression \<^verbatim>\<open>!(5)\<close> and result \<^verbatim>\<open>120\<close> in front of the history. With \<^verbatim>\<open>-1\<close> or
  \<^verbatim>\<open>2.5\<close> on the display it sets the error flag and leaves the history as it was.
\<close>

theorem factorial_examples:
  "handleScientific P ''!'' (s\<lparr>display := ''5''\<rparr>) =
     s\<lparr>display := ''120'',
       history := \<lparr>expression = ''!(5)'', result = ''120''\<rparr> # take 9 (history s),
       waitingForNewValue := True\<rparr>
   \<and> isError (handleScientific P ''!'' (s\<lparr>display := ''-1''\<rparr>))
   \<and> history (handleScientific P ''!'' (s\<lparr>display := ''-1''\<rparr>)) = history s
   \<and> isError (handleScientific P ''!'' (s\<lparr>display := ''2.5''\<rparr>))
   \<and> history (handleScientific P ''!'' (s\<lparr>display := ''2.5''\<rparr>)) = history s"
proof -
  have "isInteger (Fin 5)" by (simp add: isInteger_def)
  then show ?thesis
    using not_isInteger_half
    by (simp add: handleScientific_def scientific_def push_history_def js_lt0_def Let_def
        parseFloat_small factorial_5 String_def nat_digits.simps)
qed

text \<open>
  C10. A scientific function that succeeds leaves the pending operand and the pending
  operator as they were before the call.
\<close>

theorem scientific_success_keeps_pending:
  "scientific P func (parseFloat (display s)) = Some (Inr r)
   \<Longrightarrow> previousValue (handleScientific P func s) = previousValue s
       \<and> operation (handleScientific P func s) = operation s"
  by (simp add: handleScientific_def Let_def)

theorem scientific_success_keeps_pending_witness:
  "scientific plain_platform ''!'' (parseFloat (display (run plain_platform [NumberButton ''3'', OperationButton ''+'', NumberButton ''5'']))) = Some (Inr (Fin 120))
   \<and> previousValue (handleScientific plain_platform ''!'' (run plain_platform [NumberButton ''3'', OperationButton ''+'', NumberButton ''5''])) = Some (Fin 3)
   \<and> operation (handleScientific plain_platform ''!'' (run plain_platform [NumberButton ''3'', OperationButton ''+'', NumberButton ''5''])) = Some ''+''"
proof -
  have s5: "(run plain_platform [NumberButton ''3'', OperationButton ''+'', NumberButton ''5'']) = \<lparr>display = ''5'', previousValue = Some (Fin 3), operation = Some ''+'',
      waitingForNewValue = False, memory = Fin 0, history = [], showHistory = False,
      isError = False\<rparr>"
    by (simp add: eval_defs)
  have h: "scientific plain_platform ''!'' (parseFloat (display (run plain_platform [NumberButton ''3'', OperationButton ''+'', NumberButton ''5'']))) = Some (Inr (Fin 120))"
    by (simp add: s5 scientific_def parseFloat_small factorial_5 js_lt0_def isInteger_def)
  from scientific_success_keeps_pending [OF h]
  have "previousValue (handleScientific plain_platform ''!'' (run plain_platform [NumberButton ''3'', OperationButton ''+'', NumberButton ''5''])) = previousValue (run plain_platform [NumberButton ''3'', OperationButton ''+'', NumberButton ''5''])
      \<and> operation (handleScientific plain_platform ''!'' (run plain_platform [NumberButton ''3'', OperationButton ''+'', NumberButton ''5''])) = operation (run plain_platform [NumberButton ''3'', OperationButton ''+'', NumberButton ''5''])" .
  then show ?thesis using h by (simp add: s5)
qed


subsection \<open>Memory\<close>

text \<open>
  C9. In every state a memory operation leaves the pending operand, the pending operator,
  the history and the error flag as they were. \<^verbatim>\<open>MC\<close> sets memory to \<open>0\<close>; \<^verbatim>\<open>MR\<close> copies
  memory to the display, sets the flag that waits for a new entry and keeps memory;
  \<^verbatim>\<open>MS\<close> stores the value of the display; \<^verbatim>\<open>M+\<close> and \<^verbatim>\<open>M-\<close> add it to memory and subtract
  it from memory. With \<^verbatim>\<open>42\<close> on the display, \<^verbatim>\<open>MS\<close>, \<^verbatim>\<open>MC\<close>, \<^verbatim>\<open>MR\<close> leave \<^verbatim>\<open>0\<close> on the
  display.
\<close>

theorem memory_operations:
  "previousValue (handleMemory P func s) = previousValue s
   \<and> operation (handleMemory P func s) = operation s
   \<and> history (handleMemory P func s) = history s
   \<and> isError (handleMemory P func s) = isError s
   \<and> memory (handleMemory P ''MC'' s) = Fin 0
   \<and> display (handleMemory P ''MR'' s) = String P (memory s)
   \<and> waitingForNewValue (handleMemory P ''MR'' s)
   \<and> memory (handleMemory P ''MR'' s) = memory s
   \<and> memory (handleMemory P ''MS'' s) = parseFloat (display s)
   \<and> memory (handleMemory P ''M+'' s) = js_add (memory s) (parseFloat (display s))
   \<and> memory (handleMemory P ''M-'' s) = js_sub (memory s) (parseFloat (display s))
   \<and> memory (handleMemory P ''MS'' (s\<lparr>display := ''42''\<rparr>)) = Fin 42
   \<and> display (handleMemory P ''MR'' (handleMemory P ''MC''
        (handleMemory P ''MS'' (s\<lparr>display := ''42''\<rparr>)))) = ''0''"
  by (simp add: handleMemory_def Let_def parseFloat_small String_def nat_digits.simps)

end
